theory Spec2Isabelle
  imports Complex_Main "HOL-Library.Word"
begin

section \<open>Instance tracks of DynSLAM (InstRecLib/Track.h)\<close>

text \<open>
  The header defines the struct \<open>TrackFrame\<close> and the class \<open>Track\<close> with all of its
  inline member functions. \<open>ScoreMatch\<close>, \<open>GetAsciiArt\<close> and \<open>GetFramePose\<close> are only
  declared there; their bodies live in a translation unit that is not part of the
  sources at hand.

  C++ \<open>int\<close> is a 32-bit two's complement integer: a \<open>32 word\<close>, read with \<open>sint\<close> and
  compared with the signed order \<open><s\<close>. \<open>size_t\<close> values (sizes and positions of a
  \<open>std::vector\<close>) are natural numbers. \<open>InstanceView\<close> and the Eigen matrix type come
  from headers outside the sources at hand and are type parameters \<open>'v\<close> and \<open>'p\<close>.
  A \<open>std::shared_ptr\<close> is the address it holds, \<open>None\<close> for \<open>nullptr\<close>.
  The members \<open>id_\<close> and \<open>frames_\<close> are the fields \<open>track_id\<close> and \<open>frames\<close>: an
  Isabelle name cannot end in an underscore.
\<close>

subsection \<open>Data\<close>

record ('v, 'p) TrackFrame =
  frame_idx :: "32 word"
  instance_view :: 'v
  camera_pose :: 'p

record ('v, 'p) Track =
  track_id :: "32 word"
  frames :: "('v, 'p) TrackFrame list"
  reconstruction :: "nat option"

text \<open>
  What a call can end in besides a value. No member function of the header raises,
  asserts or aborts, so the only failure is the one the language leaves open: reading
  \<open>front()\<close>, \<open>back()\<close> or \<open>operator[]\<close> of a \<open>std::vector\<close> outside its range is
  undefined behaviour. \<open>Signalled\<close> stands for a failure the program itself would report
  (an assertion, an exception, an abort); nothing in the header produces it.
\<close>

datatype error = Signalled | UndefinedBehaviour

subsection \<open>Construction and destruction\<close>

text \<open>\<^verbatim>\<open>Track(int id) : id_(id), reconstruction(nullptr) {}\<close>\<close>

definition Track :: "32 word \<Rightarrow> ('v, 'p) Track" where
  "Track i = \<lparr>track_id = i, frames = [], reconstruction = None\<rparr>"

text \<open>The decimal digits \<open>printf\<close> writes for \<open>%d\<close>.\<close>

definition digit :: "nat \<Rightarrow> char" where
  "digit d = ''0123456789'' ! d"

fun dec_nat :: "nat \<Rightarrow> string" where
  "dec_nat n = (if n < 10 then [digit n] else dec_nat (n div 10) @ [digit (n mod 10)])"

declare dec_nat.simps [simp del]

definition printf_d :: "32 word \<Rightarrow> string" where
  "printf_d i = (if sint i < 0 then CHR ''-'' # dec_nat (nat (- sint i)) else dec_nat (nat (sint i)))"

definition deleting_message :: "32 word \<Rightarrow> string" where
  "deleting_message i =
     ''Deleting track ['' @ printf_d i @ ''] and its associated reconstruction!'' @ [CHR 0x0A]"

text \<open>
  What the destructor can touch outside the track: the text written to \<open>stderr\<close> so far,
  and, for every address, the number of \<open>std::shared_ptr\<close>s that own the object there
  (its use count). An object with use count 0 has been deleted.
\<close>

record world =
  stderr_text :: string
  use_count :: "nat \<Rightarrow> nat"

text \<open>
  The body of \<open>~Track()\<close>:
  \<^verbatim>\<open>if (reconstruction.get() != nullptr) { fprintf(stderr, "Deleting track [%d] ...\n", id_); }\<close>
  It writes the message or does nothing; it assigns to no member and always runs to its
  end.
\<close>

definition Track_dtor_body :: "('v, 'p) Track \<Rightarrow> world \<Rightarrow> world" where
  "Track_dtor_body t w =
     (if reconstruction t \<noteq> None
      then w\<lparr>stderr_text := stderr_text w @ deleting_message (track_id t)\<rparr>
      else w)"

text \<open>
  The destructor of a \<open>std::shared_ptr\<close>: a null pointer owns nothing; any other gives
  up its share, so the use count of the object goes down by one (and the object is
  deleted when it reaches 0). A pointer that is held has a use count of at least one.
\<close>

definition shared_ptr_dtor :: "nat option \<Rightarrow> world \<Rightarrow> world" where
  "shared_ptr_dtor p w =
     (case p of
        None \<Rightarrow> w
      | Some a \<Rightarrow> w\<lparr>use_count := (use_count w)(a := use_count w a - 1)\<rparr>)"

text \<open>
  Destroying a track runs the body of \<open>~Track()\<close> and then destroys the members in the
  reverse order of their declaration: \<open>reconstruction\<close> (the \<open>std::shared_ptr\<close> of line
  103), then \<open>frames_\<close> and \<open>id_\<close>, which reach nothing outside the track. The track is
  gone afterwards; what remains is the world.
\<close>

definition Track_dtor :: "('v, 'p) Track \<Rightarrow> world \<Rightarrow> world" where
  "Track_dtor t w = shared_ptr_dtor (reconstruction t) (Track_dtor_body t w)"

subsection \<open>Member functions defined in the header\<close>

text \<open>\<^verbatim>\<open>void AddFrame(const TrackFrame& new_frame) { frames_.push_back(new_frame); }\<close>\<close>

definition AddFrame :: "('v, 'p) Track \<Rightarrow> ('v, 'p) TrackFrame \<Rightarrow> ('v, 'p) Track" where
  "AddFrame t new_frame = t\<lparr>frames := frames t @ [new_frame]\<rparr>"

definition GetSize :: "('v, 'p) Track \<Rightarrow> nat" where
  "GetSize t = length (frames t)"

text \<open>\<open>frames_.back()\<close>: undefined on an empty vector.\<close>

definition GetLastFrame :: "('v, 'p) Track \<Rightarrow> error + ('v, 'p) TrackFrame" where
  "GetLastFrame t = (if frames t = [] then Inl UndefinedBehaviour else Inr (last (frames t)))"

text \<open>\<open>frames_.front().frame_idx\<close>: undefined on an empty vector.\<close>

definition GetStartTime :: "('v, 'p) Track \<Rightarrow> error + 32 word" where
  "GetStartTime t =
     (case frames t of [] \<Rightarrow> Inl UndefinedBehaviour | f # _ \<Rightarrow> Inr (frame_idx f))"

text \<open>\<open>frames_.back().frame_idx\<close>: undefined on an empty vector.\<close>

definition GetEndTime :: "('v, 'p) Track \<Rightarrow> error + 32 word" where
  "GetEndTime t =
     (if frames t = [] then Inl UndefinedBehaviour else Inr (frame_idx (last (frames t))))"

definition GetFrames :: "('v, 'p) Track \<Rightarrow> ('v, 'p) TrackFrame list" where
  "GetFrames t = frames t"

text \<open>
  \<open>frames_[i]\<close> with \<open>int i\<close>. The index is converted to \<open>size_t\<close>, which sends a negative
  \<open>i\<close> beyond every size a vector can have; \<open>operator[]\<close> checks nothing and is undefined
  unless the position is below \<open>size()\<close>.
\<close>

definition GetFrame :: "('v, 'p) Track \<Rightarrow> 32 word \<Rightarrow> error + ('v, 'p) TrackFrame" where
  "GetFrame t i =
     (if 0 \<le> sint i \<and> nat (sint i) < length (frames t)
      then Inr (frames t ! nat (sint i))
      else Inl UndefinedBehaviour)"

definition GetId :: "('v, 'p) Track \<Rightarrow> 32 word" where
  "GetId t = track_id t"

definition HasReconstruction :: "('v, 'p) Track \<Rightarrow> bool" where
  "HasReconstruction t = (reconstruction t \<noteq> None)"

definition GetReconstruction :: "('v, 'p) Track \<Rightarrow> nat option" where
  "GetReconstruction t = reconstruction t"

text \<open>\<^verbatim>\<open>bool EligibleForReconstruction() const { return GetSize() >= 1; }\<close>\<close>

definition EligibleForReconstruction :: "('v, 'p) Track \<Rightarrow> bool" where
  "EligibleForReconstruction t = (GetSize t \<ge> 1)"

subsection \<open>The order of the stored frame indices\<close>

definition strictly_increasing :: "('v, 'p) Track \<Rightarrow> bool" where
  "strictly_increasing t = sorted_wrt (\<lambda>a b. frame_idx a <s frame_idx b) (frames t)"

subsection \<open>Member functions that are only declared in the header\<close>

text \<open>
  Modelled from the spec: the body of \<open>Track::GetFramePose\<close> is missing from the sources
  at hand; the header only declares
  \<^verbatim>\<open>dynslam::utils::Option<Eigen::Matrix4d> GetFramePose(size_t frame_idx) const;\<close>
  with the comment "Returns the relative pose of the specified frame w.r.t. the first
  one". The specification (4.2) reads: "returns the pose of the observation at position
  index in the stored sequence, expressed relative to the track's first observation:
  inverse(first.camera_pose) . observations[index].camera_pose. Returns an empty/absent
  result if index is out of the valid range [0, size); never throws."

  The matrix type and its operations belong to the Eigen library, not to this
  repository: they are the parameter \<open>E\<close>. The result is an \<open>option\<close>, as the declared
  return type is; the function has no failure branch.
\<close>

record 'p pose_ops =
  pose_identity :: 'p
  pose_mul :: "'p \<Rightarrow> 'p \<Rightarrow> 'p"
  pose_inverse :: "'p \<Rightarrow> 'p"

definition GetFramePose :: "'p pose_ops \<Rightarrow> ('v, 'p) Track \<Rightarrow> nat \<Rightarrow> 'p option" where
  "GetFramePose E t index =
     (if index < GetSize t
      then Some (pose_mul E (pose_inverse E (camera_pose (frames t ! 0)))
                            (camera_pose (frames t ! index)))
      else None)"

text \<open>
  Modelled from the spec: the body of \<open>Track::ScoreMatch\<close> is missing from the sources at
  hand; the header only declares
  \<^verbatim>\<open>float ScoreMatch(const TrackFrame& new_frame) const;\<close>
  with the comment "A goodness score between 0 and 1, where 0 means the new frame would
  not match this track at all, and 1 would be a perfect match". The specification (4.2)
  gives the signature "ScoreMatch(candidate: Observation) -> real number in [0,1]",
  says "Fails with no error condition", and names three signals and their combination:
  \<^enum> semantic compatibility: "0 if candidate.detection.class differs from the class of the
    track's most recent Observation (hard veto); else contributes a positive base";
  \<^enum> spatial consistency: an overlap "(e.g., intersection-over-union)" between the
    candidate's mask or box and the track's last known one;
  \<^enum> temporal consistency: "a decaying penalty as a function of the frame gap between
    the track's last observation and candidate.frame_index";
  \<^enum> "Combine via a weighted product or minimum so any zeroed factor forces the result
    to 0".

  A signal is a score: a real number between 0 and 1; the base is a score that is not 0.
  The specification fixes neither the overlap measure, nor the decay, nor the base, nor
  the weights, nor which of the two combinations is taken: they are the fields of the
  policy \<open>P\<close>. The class of a detection is read from the \<open>InstanceView\<close> by
  \<open>detection_class\<close>. The weights of the product are positive whole exponents, kept
  as their predecessors so that none can be 0. The frame gap is the difference of the
  two indices as integers. The function has no failure branch. The specification does
  not say what a track without observations scores (its live tracks always have one):
  that score is the field \<open>unobserved\<close> of the policy.
\<close>

typedef score = "{x :: real. 0 \<le> x \<and> x \<le> 1}"
  by (rule exI [of _ 0]) simp

typedef positive_score = "{x :: real. 0 < x \<and> x \<le> 1}"
  by (rule exI [of _ 1]) simp

datatype combination = WeightedProduct nat nat nat | Minimum

record ('v, 'p) match_policy =
  detection_class :: "'v \<Rightarrow> nat"
  base :: positive_score
  spatial :: "('v, 'p) TrackFrame \<Rightarrow> ('v, 'p) TrackFrame \<Rightarrow> score"
  temporal :: "int \<Rightarrow> score"
  combine_by :: combination
  unobserved :: score

fun combine :: "combination \<Rightarrow> real \<Rightarrow> real \<Rightarrow> real \<Rightarrow> real" where
  "combine (WeightedProduct w1 w2 w3) a b c = a ^ Suc w1 * b ^ Suc w2 * c ^ Suc w3"
| "combine Minimum a b c = min a (min b c)"

definition semantic :: "('v, 'p) match_policy \<Rightarrow> ('v, 'p) TrackFrame \<Rightarrow> ('v, 'p) TrackFrame \<Rightarrow> real" where
  "semantic P latest new_frame =
     (if detection_class P (instance_view new_frame) \<noteq> detection_class P (instance_view latest)
      then 0 else Rep_positive_score (base P))"

definition ScoreMatch ::
  "('v, 'p) match_policy \<Rightarrow> ('v, 'p) Track \<Rightarrow> ('v, 'p) TrackFrame \<Rightarrow> real" where
  "ScoreMatch P t new_frame =
     (if frames t = [] then Rep_score (unobserved P)
      else
        (let latest = last (frames t)
         in combine (combine_by P)
              (semantic P latest new_frame)
              (Rep_score (spatial P latest new_frame))
              (Rep_score (temporal P (sint (frame_idx new_frame) - sint (frame_idx latest))))))"

definition unit_interval :: "real \<Rightarrow> bool" where
  "unit_interval x = (0 \<le> x \<and> x \<le> 1)"

subsection \<open>Concrete instances\<close>

text \<open>
  Poses as 4 x 4 integer matrices, a list of four rows: the product, the identity and
  the inverse of a rigid transform (rotation block transposed, translation rotated back
  and negated).
\<close>

type_synonym mat4 = "int list list"

definition mat4_mul :: "mat4 \<Rightarrow> mat4 \<Rightarrow> mat4" where
  "mat4_mul a b =
     map (\<lambda>i. map (\<lambda>j. sum_list (map (\<lambda>k. a ! i ! k * b ! k ! j) [0, 1, 2, 3])) [0, 1, 2, 3])
       [0, 1, 2, 3]"

definition mat4_identity :: mat4 where
  "mat4_identity = [[1, 0, 0, 0], [0, 1, 0, 0], [0, 0, 1, 0], [0, 0, 0, 1]]"

definition rigid_inverse :: "mat4 \<Rightarrow> mat4" where
  "rigid_inverse m =
     map (\<lambda>i. map (\<lambda>j. m ! j ! i) [0, 1, 2] @
               [- sum_list (map (\<lambda>j. m ! j ! i * m ! j ! 3) [0, 1, 2])]) [0, 1, 2]
     @ [[0, 0, 0, 1]]"

definition rigid_ops :: "mat4 pose_ops" where
  "rigid_ops = \<lparr>pose_identity = mat4_identity, pose_mul = mat4_mul, pose_inverse = rigid_inverse\<rparr>"

text \<open>A quarter turn about the third axis followed by the translation (1, 2, 3), and a
  pure translation by (4, 0, 0).\<close>

definition pose_a :: mat4 where
  "pose_a = [[0, -1, 0, 1], [1, 0, 0, 2], [0, 0, 1, 3], [0, 0, 0, 1]]"

definition pose_b :: mat4 where
  "pose_b = [[1, 0, 0, 4], [0, 1, 0, 0], [0, 0, 1, 0], [0, 0, 0, 1]]"

definition frame_at :: "32 word \<Rightarrow> nat \<Rightarrow> mat4 \<Rightarrow> (nat, mat4) TrackFrame" where
  "frame_at i c p = \<lparr>frame_idx = i, instance_view = c, camera_pose = p\<rparr>"

text \<open>The track of the specification's scenario: frames 5, 7 and 8 of an object of class 2.\<close>

definition track_578 :: "(nat, mat4) Track" where
  "track_578 =
     AddFrame (AddFrame (AddFrame (Track 1) (frame_at 5 2 pose_a)) (frame_at 7 2 pose_b))
       (frame_at 8 2 pose_a)"

text \<open>
  A track that holds a reconstruction at address 100, and a world in which nothing has
  been written and that track is the only owner of the object at 100.
\<close>

definition track_with_reconstruction :: "(nat, mat4) Track" where
  "track_with_reconstruction = (Track 3)\<lparr>reconstruction := Some 100\<rparr>"

definition world_sole_owner :: world where
  "world_sole_owner = \<lparr>stderr_text = [], use_count = (\<lambda>a. if a = 100 then 1 else 0)\<rparr>"

text \<open>
  A policy of the kind the specification sketches. A detection is a class and an
  axis-parallel box, given by its corners \<open>(x0, y0, x1, y1)\<close>. The overlap is the
  intersection over union of the two boxes as they are (the zero-motion assumption), 0
  when both are empty. The decay is linear and reaches 0 at the maximum gap.
\<close>

type_synonym box = "int \<times> int \<times> int \<times> int"

type_synonym detection = "nat \<times> box"

fun box_area :: "box \<Rightarrow> int" where
  "box_area (x0, y0, x1, y1) = max 0 (x1 - x0) * max 0 (y1 - y0)"

fun box_intersection :: "box \<Rightarrow> box \<Rightarrow> box" where
  "box_intersection (x0, y0, x1, y1) (u0, v0, u1, v1) =
     (max x0 u0, max y0 v0, min x1 u1, min y1 v1)"

definition iou :: "box \<Rightarrow> box \<Rightarrow> real" where
  "iou a b =
     (let i = box_area (box_intersection a b); u = box_area a + box_area b - i
      in if u = 0 then 0 else real_of_int i / real_of_int u)"

definition linear_decay :: "int \<Rightarrow> int \<Rightarrow> real" where
  "linear_decay max_gap g =
     (if g \<le> 0 then 1 else if max_gap \<le> g then 0 else 1 - real_of_int g / real_of_int max_gap)"

definition example_policy :: "(detection, mat4) match_policy" where
  "example_policy =
     \<lparr>detection_class = fst,
      base = Abs_positive_score 1,
      spatial = (\<lambda>a b. Abs_score (iou (snd (instance_view a)) (snd (instance_view b)))),
      temporal = (\<lambda>g. Abs_score (linear_decay 10 g)),
      combine_by = WeightedProduct 0 0 0,
      unobserved = Abs_score 0\<rparr>"

definition detected :: "32 word \<Rightarrow> nat \<Rightarrow> box \<Rightarrow> (detection, mat4) TrackFrame" where
  "detected i c b = \<lparr>frame_idx = i, instance_view = (c, b), camera_pose = mat4_identity\<rparr>"

text \<open>Frames 5, 7 and 8 of an object of class 2 that moves to the right.\<close>

definition track_boxes :: "(detection, mat4) Track" where
  "track_boxes =
     AddFrame (AddFrame (AddFrame (Track 1) (detected 5 2 (0, 0, 4, 4))) (detected 7 2 (0, 0, 4, 4)))
       (detected 8 2 (0, 0, 4, 4))"

section \<open>Properties\<close>

subsection \<open>Auxiliary facts\<close>

lemma frames_track_578:
  "frames track_578 = [frame_at 5 2 pose_a, frame_at 7 2 pose_b, frame_at 8 2 pose_a]"
  by (simp add: track_578_def AddFrame_def Track_def)

lemma sorted_wrt_last:
  "sorted_wrt P xs \<Longrightarrow> y \<in> set xs \<Longrightarrow> y = last xs \<or> P y (last xs)"
  by (induction xs) auto

lemma sorted_wrt_snoc:
  assumes tr: "\<And>a b c. P a b \<Longrightarrow> P b c \<Longrightarrow> P a c"
  shows "sorted_wrt P (xs @ [x]) \<longleftrightarrow> sorted_wrt P xs \<and> (xs = [] \<or> P (last xs) x)"
proof (cases "xs = []")
  case True
  then show ?thesis by simp
next
  case False
  have "(\<forall>y\<in>set xs. P y x) \<longleftrightarrow> P (last xs) x" if s: "sorted_wrt P xs"
  proof
    assume "\<forall>y\<in>set xs. P y x"
    with False show "P (last xs) x" by simp
  next
    assume l: "P (last xs) x"
    show "\<forall>y\<in>set xs. P y x"
    proof
      fix y assume "y \<in> set xs"
      with s have "y = last xs \<or> P y (last xs)" by (rule sorted_wrt_last)
      with l tr show "P y x" by blast
    qed
  qed
  with False show ?thesis by (auto simp: sorted_wrt_append)
qed

lemma word_sless_trans32: "(a::32 word) <s b \<Longrightarrow> b <s c \<Longrightarrow> a <s c"
  by (simp add: word_sless_alt)

text \<open>The decimal rendering of \<open>%d\<close> tells any two 32-bit integers apart.\<close>

lemma digit_inj: "d < 10 \<Longrightarrow> e < 10 \<Longrightarrow> digit d = digit e \<Longrightarrow> d = e"
proof -
  have ten: "\<And>k::nat. k < 10 \<Longrightarrow> k \<in> {0, 1, 2, 3, 4, 5, 6, 7, 8, 9}" by auto
  assume "d < 10" "e < 10" "digit d = digit e"
  with ten [of d] ten [of e] show ?thesis by (auto simp: digit_def)
qed

lemma digit_not_minus: "d < 10 \<Longrightarrow> digit d \<noteq> CHR ''-''"
proof -
  have ten: "\<And>k::nat. k < 10 \<Longrightarrow> k \<in> {0, 1, 2, 3, 4, 5, 6, 7, 8, 9}" by auto
  assume "d < 10"
  with ten [of d] show ?thesis by (auto simp: digit_def)
qed

lemma dec_nat_not_Nil: "dec_nat n \<noteq> []"
  by (subst dec_nat.simps) simp

lemma dec_nat_digits: "c \<in> set (dec_nat n) \<Longrightarrow> c \<noteq> CHR ''-''"
proof (induction n rule: dec_nat.induct)
  case (1 n)
  show ?case
  proof (cases "n < 10")
    case True
    with "1.prems" show ?thesis
      by (subst (asm) dec_nat.simps) (simp add: digit_not_minus)
  next
    case False
    with "1.prems" have "c \<in> set (dec_nat (n div 10)) \<or> c = digit (n mod 10)"
      by (subst (asm) dec_nat.simps) auto
    moreover have "digit (n mod 10) \<noteq> CHR ''-''"
      by (rule digit_not_minus) simp
    ultimately show ?thesis
      using False "1.IH" by auto
  qed
qed

lemma dec_nat_inj: "dec_nat m = dec_nat n \<Longrightarrow> m = n"
proof (induction m arbitrary: n rule: dec_nat.induct)
  case (1 m)
  show ?case
  proof (cases "m < 10")
    case m: True
    show ?thesis
    proof (cases "n < 10")
      case True
      with m "1.prems" show ?thesis
        by (simp add: dec_nat.simps [of m] dec_nat.simps [of n] digit_inj)
    next
      case False
      with m "1.prems" show ?thesis
        by (simp add: dec_nat.simps [of m] dec_nat.simps [of n] dec_nat_not_Nil
            dec_nat_not_Nil [THEN not_sym])
    qed
  next
    case m: False
    show ?thesis
    proof (cases "n < 10")
      case True
      with m "1.prems" show ?thesis
        by (simp add: dec_nat.simps [of m] dec_nat.simps [of n] dec_nat_not_Nil
            dec_nat_not_Nil [THEN not_sym])
    next
      case False
      with m "1.prems" have eq: "dec_nat (m div 10) = dec_nat (n div 10)"
        and d: "digit (m mod 10) = digit (n mod 10)"
        by (simp_all add: dec_nat.simps [of m] dec_nat.simps [of n])
      from m eq have "m div 10 = n div 10" by (rule "1.IH")
      moreover from d have "m mod 10 = n mod 10" by (simp add: digit_inj)
      ultimately show ?thesis by (metis div_mult_mod_eq)
    qed
  qed
qed

lemma printf_d_inj: "printf_d i = printf_d j \<Longrightarrow> i = j"
proof -
  assume eq: "printf_d i = printf_d j"
  have "dec_nat k \<noteq> CHR ''-'' # cs" for k cs
  proof
    assume a: "dec_nat k = CHR ''-'' # cs"
    then have "CHR ''-'' \<in> set (dec_nat k)" by simp
    then show False using dec_nat_digits by blast
  qed
  then have neg: "dec_nat k \<noteq> CHR ''-'' # cs \<and> CHR ''-'' # cs \<noteq> dec_nat k" for k cs
    by metis
  have "sint i = sint j"
  proof (cases "sint i < 0"; cases "sint j < 0")
    assume "sint i < 0" "sint j < 0"
    with eq have "nat (- sint i) = nat (- sint j)" by (simp add: printf_d_def dec_nat_inj)
    with \<open>sint i < 0\<close> \<open>sint j < 0\<close> show ?thesis by simp
  next
    assume "sint i < 0" "\<not> sint j < 0"
    with eq neg [of "nat (sint j)" "dec_nat (nat (- sint i))"] show ?thesis
      by (simp add: printf_d_def)
  next
    assume "\<not> sint i < 0" "sint j < 0"
    with eq neg [of "nat (sint i)" "dec_nat (nat (- sint j))"] show ?thesis
      by (simp add: printf_d_def)
  next
    assume "\<not> sint i < 0" "\<not> sint j < 0"
    with eq have "nat (sint i) = nat (sint j)" by (simp add: printf_d_def dec_nat_inj)
    with \<open>\<not> sint i < 0\<close> \<open>\<not> sint j < 0\<close> show ?thesis by simp
  qed
  then show ?thesis by (rule signed_word_eqI)
qed

lemma deleting_message_inj: "deleting_message i = deleting_message j \<Longrightarrow> i = j"
  by (simp add: deleting_message_def printf_d_inj)

lemma deleting_message_42:
  "deleting_message 42 = ''Deleting track [42] and its associated reconstruction!'' @ [CHR 0x0A]"
  by (simp add: deleting_message_def printf_d_def dec_nat.simps digit_def)

lemma printf_d_negative: "printf_d (- 12) = ''-12''"
  by (simp add: printf_d_def dec_nat.simps digit_def)

text \<open>Scores in the unit interval stay there under both combinations.\<close>

lemma unit_interval_power: "unit_interval x \<Longrightarrow> unit_interval (x ^ n)"
  by (simp add: unit_interval_def power_le_one)

lemma unit_interval_mult: "unit_interval x \<Longrightarrow> unit_interval y \<Longrightarrow> unit_interval (x * y)"
  by (simp add: unit_interval_def mult_le_one)

lemma unit_interval_min: "unit_interval x \<Longrightarrow> unit_interval y \<Longrightarrow> unit_interval (min x y)"
  by (auto simp: unit_interval_def min_def)

lemma combine_unit_interval:
  "unit_interval a \<Longrightarrow> unit_interval b \<Longrightarrow> unit_interval c \<Longrightarrow> unit_interval (combine k a b c)"
  by (cases k) (simp_all add: unit_interval_power unit_interval_mult unit_interval_min)

lemma combine_zero:
  "unit_interval b \<Longrightarrow> unit_interval c \<Longrightarrow> combine k 0 b c = 0"
  by (cases k) (auto simp: unit_interval_def min_def)

lemma Rep_score_unit: "unit_interval (Rep_score x)"
  using Rep_score [of x] by (simp add: unit_interval_def)

lemma Rep_positive_score_unit: "unit_interval (Rep_positive_score x)"
  using Rep_positive_score [of x] by (simp add: unit_interval_def)

lemma Rep_Abs_score: "unit_interval x \<Longrightarrow> Rep_score (Abs_score x) = x"
  by (simp add: Abs_score_inverse unit_interval_def)

text \<open>The intersection over union and the linear decay are scores.\<close>

lemma box_area_nonneg: "0 \<le> box_area a"
  by (cases a) simp

lemma box_area_intersection: "box_area (box_intersection a b) \<le> box_area a"
proof -
  obtain x0 y0 x1 y1 where a: "a = (x0, y0, x1, y1)" by (cases a)
  obtain u0 v0 u1 v1 where b: "b = (u0, v0, u1, v1)" by (cases b)
  have "max 0 (min x1 u1 - max x0 u0) * max 0 (min y1 v1 - max y0 v0)
          \<le> max 0 (x1 - x0) * max 0 (y1 - y0)"
    by (rule mult_mono) auto
  with a b show ?thesis by simp
qed

lemma box_area_intersection2: "box_area (box_intersection a b) \<le> box_area b"
proof -
  obtain x0 y0 x1 y1 where a: "a = (x0, y0, x1, y1)" by (cases a)
  obtain u0 v0 u1 v1 where b: "b = (u0, v0, u1, v1)" by (cases b)
  have "max 0 (min x1 u1 - max x0 u0) * max 0 (min y1 v1 - max y0 v0)
          \<le> max 0 (u1 - u0) * max 0 (v1 - v0)"
    by (rule mult_mono) auto
  with a b show ?thesis by simp
qed

lemma iou_unit: "unit_interval (iou a b)"
proof -
  let ?i = "box_area (box_intersection a b)"
  let ?u = "box_area a + box_area b - ?i"
  have i: "0 \<le> ?i" by (rule box_area_nonneg)
  have "?i \<le> box_area a" by (rule box_area_intersection)
  moreover have "?i \<le> box_area b" by (rule box_area_intersection2)
  ultimately have u: "?i \<le> ?u" by simp
  show ?thesis
  proof (cases "?u = 0")
    case True
    then show ?thesis by (simp add: iou_def unit_interval_def)
  next
    case False
    with i u have pos: "0 < ?u" by simp
    from i u pos have "0 \<le> real_of_int ?i / real_of_int ?u"
      and "real_of_int ?i / real_of_int ?u \<le> 1"
      by simp_all
    with False show ?thesis by (simp add: iou_def unit_interval_def Let_def)
  qed
qed

lemma linear_decay_unit: "unit_interval (linear_decay m g)"
proof -
  have "real_of_int g / real_of_int m \<le> 1" if "0 < g" "g < m"
    using that by simp
  moreover have "0 \<le> real_of_int g / real_of_int m" if "0 < g" "g < m"
    using that by simp
  ultimately show ?thesis
    by (auto simp: unit_interval_def linear_decay_def not_le)
qed

lemma frames_track_boxes:
  "frames track_boxes =
     [detected 5 2 (0, 0, 4, 4), detected 7 2 (0, 0, 4, 4), detected 8 2 (0, 0, 4, 4)]"
  by (simp add: track_boxes_def AddFrame_def Track_def)

lemma rigid_inverse_pose_a: "mat4_mul (rigid_inverse pose_a) pose_a = mat4_identity"
  by (simp add: mat4_mul_def rigid_inverse_def pose_a_def mat4_identity_def)

lemma rigid_inverse_pose_a_b:
  "mat4_mul (rigid_inverse pose_a) pose_b =
     [[0, 1, 0, - 2], [- 1, 0, 0, - 3], [0, 0, 1, - 3], [0, 0, 0, 1]]"
  by (simp add: mat4_mul_def rigid_inverse_def pose_a_def pose_b_def)

subsection \<open>AddFrame and the order of the frame indices\<close>

text \<open>
  C1, as the code has it. \<open>AddFrame\<close> compares nothing: for every track and every frame,
  whatever its index, the frame becomes the last stored one, the size grows by one, the
  identifier and the reconstruction stay as they were, and no failure is signalled
  (\<open>AddFrame\<close> has no failure branch at all).
\<close>

theorem AddFrame_appends_unconditionally:
  "GetFrames (AddFrame t f) = GetFrames t @ [f] \<and> GetSize (AddFrame t f) = GetSize t + 1 \<and>
   GetLastFrame (AddFrame t f) = Inr f \<and> GetId (AddFrame t f) = GetId t \<and>
   GetReconstruction (AddFrame t f) = GetReconstruction t"
  by (simp add: AddFrame_def GetFrames_def GetSize_def GetLastFrame_def GetId_def
      GetReconstruction_def)

text \<open>
  C1, as stated, fails: the track with frames 5, 7 and 8 ends at 8; a frame with index
  6, which is not greater than 8, is not rejected but stored as the fourth frame.
\<close>

theorem AddFrame_accepts_earlier_frame:
  "GetEndTime track_578 = Inr 8 \<and> \<not> (8 <s frame_idx (frame_at 6 2 pose_b)) \<and>
   GetFrames (AddFrame track_578 (frame_at 6 2 pose_b)) =
     [frame_at 5 2 pose_a, frame_at 7 2 pose_b, frame_at 8 2 pose_a, frame_at 6 2 pose_b] \<and>
   GetSize (AddFrame track_578 (frame_at 6 2 pose_b)) = 4"
  by (simp add: frames_track_578 GetEndTime_def GetFrames_def GetSize_def AddFrame_def
      frame_at_def)

text \<open>
  C5. For every track and every frame whose index is strictly greater than the index the
  track ends at, \<open>AddFrame\<close> increases \<open>GetSize()\<close> by exactly 1 and makes \<open>GetEndTime()\<close>
  return the index of the new frame. (A track without frames ends at no index; the
  statement covers it as well.)
\<close>

theorem AddFrame_later_frame:
  assumes "\<And>e. GetEndTime t = Inr e \<Longrightarrow> e <s frame_idx f"
  shows "GetSize (AddFrame t f) = GetSize t + 1 \<and> GetEndTime (AddFrame t f) = Inr (frame_idx f)"
  by (simp add: AddFrame_def GetSize_def GetEndTime_def)

theorem AddFrame_later_frame_witness:
  "GetEndTime track_578 = Inr 8 \<and> 8 <s frame_idx (frame_at 11 2 pose_b) \<and>
   GetSize track_578 = 3 \<and>
   GetSize (AddFrame track_578 (frame_at 11 2 pose_b)) = 4 \<and>
   GetEndTime (AddFrame track_578 (frame_at 11 2 pose_b)) = Inr 11"
proof -
  have e: "GetEndTime track_578 = Inr 8"
    by (simp add: frames_track_578 GetEndTime_def frame_at_def)
  have l: "8 <s frame_idx (frame_at 11 2 pose_b)"
    by (simp add: frame_at_def)
  have s: "GetSize track_578 = 3"
    by (simp add: frames_track_578 GetSize_def)
  have h: "\<And>e. GetEndTime track_578 = Inr e \<Longrightarrow> e <s frame_idx (frame_at 11 2 pose_b)"
    using e l by simp
  show ?thesis
    using AddFrame_later_frame [of track_578 "frame_at 11 2 pose_b", OF h] e l s
    by (simp add: frame_at_def)
qed

text \<open>
  C8, as the code has it. A track built by the constructor has strictly increasing frame
  indices (it has none). After \<open>AddFrame\<close> the indices are strictly increasing exactly
  when they were before and the track was empty or the new index is strictly greater
  than the one the track ended at. \<open>AddFrame\<close> itself checks nothing, so keeping the
  order is the caller's part. The \<open>const\<close> member functions return a value and leave
  the track as it is.
\<close>

theorem AddFrame_order:
  "strictly_increasing (Track i :: ('v, 'p) Track) \<and>
   (strictly_increasing (AddFrame (t :: ('v, 'p) Track) f) \<longleftrightarrow>
     strictly_increasing t \<and> (GetSize t = 0 \<or> (\<exists>e. GetEndTime t = Inr e \<and> e <s frame_idx f)))"
  using sorted_wrt_snoc [of "\<lambda>a b. frame_idx a <s frame_idx b" "frames t" f]
  by (auto simp: strictly_increasing_def AddFrame_def GetSize_def GetEndTime_def Track_def
      intro: word_sless_trans32)

theorem AddFrame_order_witness:
  "strictly_increasing track_578 \<and> GetEndTime track_578 = Inr 8 \<and>
   8 <s frame_idx (frame_at 11 2 pose_b) \<and>
   strictly_increasing (AddFrame track_578 (frame_at 11 2 pose_b))"
proof -
  have i: "strictly_increasing track_578"
    by (simp add: strictly_increasing_def frames_track_578 frame_at_def)
  have e: "GetEndTime track_578 = Inr 8"
    by (simp add: frames_track_578 GetEndTime_def frame_at_def)
  have l: "8 <s frame_idx (frame_at 11 2 pose_b)"
    by (simp add: frame_at_def)
  from i e l AddFrame_order [where i = 1 and t = track_578 and f = "frame_at 11 2 pose_b"]
  show ?thesis by simp
qed

text \<open>
  C8, as stated, fails: the frames 5, 7, 8 are strictly increasing, and \<open>AddFrame\<close> with
  a second frame of index 8 stores the duplicate.
\<close>

theorem AddFrame_breaks_order:
  "strictly_increasing track_578 \<and>
   \<not> strictly_increasing (AddFrame track_578 (frame_at 8 2 pose_b))"
  by (simp add: strictly_increasing_def frames_track_578 AddFrame_def frame_at_def)

subsection \<open>Queries\<close>

text \<open>
  C2. \<open>EligibleForReconstruction()\<close> is true exactly when the track stores at least one
  frame. It is a \<open>const\<close> member function: a function of the track that returns a truth
  value and no new track.
\<close>

theorem EligibleForReconstruction_iff:
  "EligibleForReconstruction t = (1 \<le> GetSize t) \<and>
   EligibleForReconstruction t = (GetFrames t \<noteq> [])"
  by (cases "frames t") (simp_all add: EligibleForReconstruction_def GetSize_def GetFrames_def)

text \<open>
  C6, as the code has it. For a track with at least one frame, \<open>GetStartTime()\<close> returns
  the index of the first stored frame and \<open>GetEndTime()\<close> the index of the last one. For
  a track without frames neither checks anything: both read \<open>front()\<close> or \<open>back()\<close> of an
  empty vector, which is undefined behaviour and not a failure the program reports.
\<close>

theorem start_end_time:
  "(0 < GetSize t \<longrightarrow>
      GetStartTime t = Inr (frame_idx (GetFrames t ! 0)) \<and>
      GetEndTime t = Inr (frame_idx (GetFrames t ! (GetSize t - 1)))) \<and>
   (GetSize t = 0 \<longrightarrow>
      GetStartTime t = Inl UndefinedBehaviour \<and> GetEndTime t = Inl UndefinedBehaviour)"
  by (cases "frames t")
     (simp_all add: GetSize_def GetStartTime_def GetEndTime_def GetFrames_def last_conv_nth)

theorem start_end_time_witness:
  "0 < GetSize track_578 \<and> GetStartTime track_578 = Inr 5 \<and> GetEndTime track_578 = Inr 8"
  using start_end_time [of track_578]
  by (simp add: frames_track_578 GetSize_def GetFrames_def frame_at_def)

text \<open>
  C6, as stated, fails on the track \<open>Track(7)\<close>, which has no frames: both calls run
  into undefined behaviour; neither reports an empty-state error.
\<close>

theorem start_end_time_of_empty_track:
  "GetSize (Track 7 :: (nat, mat4) Track) = 0 \<and>
   GetStartTime (Track 7 :: (nat, mat4) Track) = Inl UndefinedBehaviour \<and>
   GetEndTime (Track 7 :: (nat, mat4) Track) = Inl UndefinedBehaviour \<and>
   GetStartTime (Track 7 :: (nat, mat4) Track) \<noteq> Inl Signalled \<and>
   GetEndTime (Track 7 :: (nat, mat4) Track) \<noteq> Inl Signalled"
  by (simp add: Track_def GetSize_def GetStartTime_def GetEndTime_def)

text \<open>
  C9. \<open>GetFrame(i)\<close> checks no range. It runs into undefined behaviour exactly when \<open>i\<close>
  is negative or not below \<open>GetSize()\<close>; it never reports a failure of its own and has
  no absent result; and for every track such an index exists (\<open>-1\<close> is one), so the
  caller has to establish \<open>0 \<le> i < GetSize()\<close>.
\<close>

theorem GetFrame_unchecked:
  "(GetFrame t i = Inl UndefinedBehaviour \<longleftrightarrow> sint i < 0 \<or> int (GetSize t) \<le> sint i) \<and>
   GetFrame t i \<noteq> Inl Signalled \<and>
   GetFrame t (- 1) = Inl UndefinedBehaviour \<and>
   (\<exists>j. GetFrame t j = Inl UndefinedBehaviour)"
proof -
  have a: "GetFrame t (- 1) = Inl UndefinedBehaviour"
    by (simp add: GetFrame_def)
  have b: "GetFrame t i = Inl UndefinedBehaviour \<longleftrightarrow> sint i < 0 \<or> int (GetSize t) \<le> sint i"
    by (auto simp: GetFrame_def GetSize_def)
  have c: "GetFrame t i \<noteq> Inl Signalled"
    by (simp add: GetFrame_def)
  from a b c show ?thesis by blast
qed

subsection \<open>Construction and destruction\<close>

text \<open>
  C10. A track built by \<open>Track(id)\<close> has no frames, no reconstruction, is not eligible for
  reconstruction and reports \<open>id\<close>: a track exists empty before its first frame is added.
\<close>

theorem Track_initial_state:
  "GetSize (Track i :: ('v, 'p) Track) = 0 \<and>
   HasReconstruction (Track i :: ('v, 'p) Track) = False \<and>
   EligibleForReconstruction (Track i :: ('v, 'p) Track) = False \<and>
   GetId (Track i :: ('v, 'p) Track) = i"
  by (simp add: Track_def GetSize_def HasReconstruction_def EligibleForReconstruction_def GetId_def)

text \<open>
  C7, as the code has it. Destroying a track that still has a reconstruction writes one
  message to \<open>stderr\<close>; the message names the track (two different identifiers give
  different messages). The destructor's body does nothing else, so the destruction goes
  on: the \<open>std::shared_ptr\<close> member is destroyed with the track and gives up the
  track's share of the reconstruction, whose use count goes down by one. Destroying a
  track without reconstruction writes nothing and changes no use count.
\<close>

theorem Track_dtor_diagnostic:
  "stderr_text (Track_dtor t w) =
     (if HasReconstruction t then stderr_text w @ deleting_message (GetId t) else stderr_text w) \<and>
   stderr_text (Track_dtor_body t w) = stderr_text (Track_dtor t w) \<and>
   use_count (Track_dtor_body t w) = use_count w \<and>
   use_count (Track_dtor t w) =
     (case GetReconstruction t of
        None \<Rightarrow> use_count w
      | Some a \<Rightarrow> (use_count w)(a := use_count w a - 1)) \<and>
   (deleting_message i = deleting_message j) = (i = j)"
  using deleting_message_inj [of i j]
  by (auto simp: Track_dtor_def Track_dtor_body_def shared_ptr_dtor_def HasReconstruction_def
      GetId_def GetReconstruction_def split: option.splits)

text \<open>
  C7, as stated, fails in its last clause: the track with identifier 3 is the only owner
  of the reconstruction at address 100; destroying it writes the message and leaves
  that reconstruction with no owner, that is, released.
\<close>

theorem Track_dtor_releases_reconstruction:
  "HasReconstruction track_with_reconstruction \<and>
   GetReconstruction track_with_reconstruction = Some 100 \<and>
   use_count world_sole_owner 100 = 1 \<and>
   use_count (Track_dtor track_with_reconstruction world_sole_owner) 100 = 0 \<and>
   stderr_text (Track_dtor track_with_reconstruction world_sole_owner) =
     ''Deleting track [3] and its associated reconstruction!'' @ [CHR 0x0A]"
  by (simp add: track_with_reconstruction_def world_sole_owner_def Track_def Track_dtor_def
      Track_dtor_body_def shared_ptr_dtor_def HasReconstruction_def GetReconstruction_def
      deleting_message_def printf_d_def dec_nat.simps digit_def)

subsection \<open>The member functions modelled from the specification\<close>

text \<open>
  C3. Let the Eigen operations be such that the inverse of the first frame's pose,
  multiplied by that pose, is the identity. Then for every track with \<open>n\<close> frames
  \<open>GetFramePose(i)\<close> is absent exactly when \<open>i\<close> is not below \<open>n\<close> (it has no failure
  branch), for every \<open>i\<close> below \<open>n\<close> it is the inverse of the first frame's pose
  multiplied by the pose of the frame at position \<open>i\<close>, and at position 0 of a track
  with at least one frame it is the identity.
\<close>

theorem GetFramePose_relative_to_first:
  assumes "0 < GetSize t \<Longrightarrow>
     pose_mul E (pose_inverse E (camera_pose (GetFrames t ! 0))) (camera_pose (GetFrames t ! 0)) =
       pose_identity E"
  shows "(GetFramePose E t i = None) = (GetSize t \<le> i) \<and>
         (i < GetSize t \<longrightarrow>
            GetFramePose E t i =
              Some (pose_mul E (pose_inverse E (camera_pose (GetFrames t ! 0)))
                      (camera_pose (GetFrames t ! i)))) \<and>
         (0 < GetSize t \<longrightarrow> GetFramePose E t 0 = Some (pose_identity E))"
  using assms by (simp add: GetFramePose_def GetFrames_def)

theorem GetFramePose_relative_to_first_witness:
  "0 < GetSize track_578 \<and>
   GetFramePose rigid_ops track_578 0 = Some mat4_identity \<and>
   GetFramePose rigid_ops track_578 1 =
     Some [[0, 1, 0, - 2], [- 1, 0, 0, - 3], [0, 0, 1, - 3], [0, 0, 0, 1]] \<and>
   GetFramePose rigid_ops track_578 3 = None"
proof -
  have s: "GetSize track_578 = 3"
    by (simp add: frames_track_578 GetSize_def)
  have h: "pose_mul rigid_ops (pose_inverse rigid_ops (camera_pose (GetFrames track_578 ! 0)))
             (camera_pose (GetFrames track_578 ! 0)) = pose_identity rigid_ops"
    by (simp add: rigid_ops_def GetFrames_def frames_track_578 frame_at_def rigid_inverse_pose_a)
  have z: "GetFramePose rigid_ops track_578 0 = Some mat4_identity"
    using GetFramePose_relative_to_first [of track_578 rigid_ops 0, OF h] s
    by (simp add: rigid_ops_def GetFrames_def frames_track_578 frame_at_def
        rigid_inverse_pose_a)
  have o: "GetFramePose rigid_ops track_578 1 =
     Some [[0, 1, 0, - 2], [- 1, 0, 0, - 3], [0, 0, 1, - 3], [0, 0, 0, 1]]"
    using GetFramePose_relative_to_first [of track_578 rigid_ops 1, OF h] s
    by (simp add: rigid_ops_def GetFrames_def frames_track_578 frame_at_def
        rigid_inverse_pose_a_b)
  have n: "GetFramePose rigid_ops track_578 3 = None"
    using GetFramePose_relative_to_first [of track_578 rigid_ops 3, OF h] s
    by simp
  from s z o n show ?thesis by simp
qed

text \<open>
  C4. For every policy, every track and every candidate frame, \<open>ScoreMatch\<close> returns a
  value between 0 and 1 (it has no failure branch), and exactly 0 when the track has a
  last frame and the candidate's class differs from the class of that frame.
  \<open>ScoreMatch\<close> is declared \<open>const\<close>: it returns the score and no new track.
\<close>

theorem ScoreMatch_unit_interval_and_veto:
  "0 \<le> ScoreMatch P t c \<and> ScoreMatch P t c \<le> 1 \<and>
   (\<forall>latest. GetLastFrame t = Inr latest \<and>
       detection_class P (instance_view c) \<noteq> detection_class P (instance_view latest)
       \<longrightarrow> ScoreMatch P t c = 0)"
proof (cases "frames t = []")
  case True
  then show ?thesis
    using Rep_score_unit [of "unobserved P"]
    by (simp add: ScoreMatch_def GetLastFrame_def unit_interval_def)
next
  case False
  define latest where "latest = last (frames t)"
  let ?g = "sint (frame_idx c) - sint (frame_idx latest)"
  let ?s = "Rep_score (spatial P latest c)"
  let ?d = "Rep_score (temporal P ?g)"
  let ?x = "combine (combine_by P) (semantic P latest c) ?s ?d"
  have eq: "ScoreMatch P t c = ?x"
    using False by (simp add: ScoreMatch_def latest_def Let_def)
  have "unit_interval (semantic P latest c)"
    using Rep_positive_score_unit [of "base P"] by (simp add: semantic_def unit_interval_def)
  then have "unit_interval ?x"
    using Rep_score_unit Rep_score_unit by (rule combine_unit_interval)
  then have u: "0 \<le> ?x \<and> ?x \<le> 1"
    by (simp add: unit_interval_def)
  have "?x = 0"
    if "detection_class P (instance_view c) \<noteq> detection_class P (instance_view latest)"
    using that combine_zero [OF Rep_score_unit Rep_score_unit] by (simp add: semantic_def)
  with eq u False show ?thesis
    by (simp add: GetLastFrame_def latest_def)
qed

theorem ScoreMatch_unit_interval_and_veto_witness:
  "GetLastFrame track_boxes = Inr (detected 8 2 (0, 0, 4, 4)) \<and>
   ScoreMatch example_policy track_boxes (detected 11 2 (2, 0, 6, 4)) = 7 / 30 \<and>
   ScoreMatch example_policy track_boxes (detected 11 3 (2, 0, 6, 4)) = 0 \<and>
   ScoreMatch example_policy (Track 1) (detected 11 2 (2, 0, 6, 4)) = 0"
proof -
  have l: "GetLastFrame track_boxes = Inr (detected 8 2 (0, 0, 4, 4))"
    by (simp add: GetLastFrame_def frames_track_boxes)
  have b: "Rep_positive_score (Abs_positive_score 1) = 1"
    by (simp add: Abs_positive_score_inverse)
  have s: "Rep_score (Abs_score (iou (0, 0, 4, 4) (2, 0, 6, 4))) = 1 / 3"
    by (simp add: Rep_Abs_score iou_unit) (simp add: iou_def)
  have d: "Rep_score (Abs_score (linear_decay 10 3)) = 7 / 10"
    by (simp add: Rep_Abs_score linear_decay_unit) (simp add: linear_decay_def)
  have z: "Rep_score (Abs_score 0) = 0"
    by (simp add: Rep_Abs_score unit_interval_def)
  have m: "ScoreMatch example_policy track_boxes (detected 11 2 (2, 0, 6, 4)) = 7 / 30"
    by (simp add: ScoreMatch_def frames_track_boxes semantic_def example_policy_def detected_def
        b s d)
  have "detection_class example_policy (instance_view (detected 11 3 (2, 0, 6, 4))) \<noteq>
        detection_class example_policy (instance_view (detected 8 2 (0, 0, 4, 4)))"
    by (simp add: example_policy_def detected_def)
  with l ScoreMatch_unit_interval_and_veto
         [of example_policy track_boxes "detected 11 3 (2, 0, 6, 4)"]
  have v: "ScoreMatch example_policy track_boxes (detected 11 3 (2, 0, 6, 4)) = 0"
    by blast
  have e: "ScoreMatch example_policy (Track 1) (detected 11 2 (2, 0, 6, 4)) = 0"
    by (simp add: ScoreMatch_def Track_def example_policy_def z)
  from l m v e show ?thesis by simp
qed

end
